theory Spec2Isabelle
  imports Main
begin

section \<open>Doctor registration form (frontend/src/pages/auth/DoctorRegister.tsx)\<close>

text \<open>
  The component is embedded as functions on an explicit record of everything it reads and
  writes: its React state, the values held by the form library, the browser storage, the
  router and the network. Exceptions are values of a sum type, so that each
  \<^verbatim>\<open>throw\<close>, each rejected promise and the \<^verbatim>\<open>try/catch/finally\<close> of
  \<^verbatim>\<open>onSubmit\<close> is a branch of the model.
\<close>

subsection \<open>Data\<close>

text \<open>
  \<^verbatim>\<open>interface Service\<close> (lines 8 to 14). The two \<^verbatim>\<open>number\<close> fields are only
  stored and shown, never computed with, so the type of numbers is left open as \<open>'n\<close>.
  \<open>sid\<close> is the field \<^verbatim>\<open>_id\<close>.
\<close>

record 'n Service =
  sid :: string
  name :: string
  description :: string
  duration :: 'n
  price :: 'n

text \<open>
  Modelled from the spec: \<^verbatim>\<open>RegisterFormInputs\<close> is declared in \<^verbatim>\<open>types/auth\<close>, which is
  not among the sources. The spec lists its fields (name, email, password, confirmPassword,
  specialization, phoneNumber, address); the component reads every one of them as a string.
  \<open>fullName\<close> is the field \<^verbatim>\<open>name\<close>, a name the record of services already has.
\<close>

record RegisterFormInputs =
  fullName :: string
  email :: string
  password :: string
  confirmPassword :: string
  specialization :: string
  phoneNumber :: string
  address :: string

text \<open>
  Values as \<^verbatim>\<open>response.json()\<close> delivers them and as the object literals of the
  component build them. An object keeps its properties in source order.
\<close>

datatype 'n jsval =
    JUndefined
  | JNull
  | JBoolean bool
  | JNumber 'n
  | JString string
  | JArray "'n jsval list"
  | JObject "(string \<times> 'n jsval) list"

text \<open>Every thrown value and every rejection reason is an error object with a message.\<close>

datatype exn = Error string | TypeError string | SyntaxError string | DOMException string

fun message :: "exn \<Rightarrow> string" where
  "message (Error m) = m"
| "message (TypeError m) = m"
| "message (SyntaxError m) = m"
| "message (DOMException m) = m"

text \<open>
  What the JavaScript engine and the browser decide and the component does not: how a value
  that is not a string is converted to one (which may throw, for an object whose own
  \<^verbatim>\<open>toString\<close> is not callable), which numbers are falsy (zero and NaN), the text
  produced by \<^verbatim>\<open>JSON.stringify\<close>, the wording of the TypeError for reading a
  property of \<^verbatim>\<open>undefined\<close> or \<^verbatim>\<open>null\<close>, whether reading
  \<^verbatim>\<open>window.localStorage\<close> throws (storage blocked for the page), and whether the
  storage with given content refuses to store a value under a key (quota exceeded).
\<close>

record 'n engine =
  ToString_other :: "'n jsval \<Rightarrow> exn + string"
  ToBoolean_number :: "'n \<Rightarrow> bool"
  JSON_stringify :: "'n jsval \<Rightarrow> string"
  TypeError_message :: "'n jsval \<Rightarrow> string \<Rightarrow> string"
  Storage_blocked :: "exn option"
  Storage_refuses :: "(string \<times> string) list \<Rightarrow> string \<Rightarrow> string \<Rightarrow> exn option"

definition ToString :: "'n engine \<Rightarrow> 'n jsval \<Rightarrow> exn + string" where
  "ToString h v = (case v of JString s \<Rightarrow> Inr s | _ \<Rightarrow> ToString_other h v)"

fun ToBoolean :: "'n engine \<Rightarrow> 'n jsval \<Rightarrow> bool" where
  "ToBoolean h JUndefined = False"
| "ToBoolean h JNull = False"
| "ToBoolean h (JBoolean b) = b"
| "ToBoolean h (JNumber n) = ToBoolean_number h n"
| "ToBoolean h (JString s) = (s \<noteq> [])"
| "ToBoolean h (JArray xs) = True"
| "ToBoolean h (JObject kvs) = True"

text \<open>
  Reading a property \<^verbatim>\<open>v.p\<close>. On \<^verbatim>\<open>undefined\<close> and \<^verbatim>\<open>null\<close> it throws. On an
  object it is the value of the last property of that name (the one \<^verbatim>\<open>JSON.parse\<close>
  keeps), and \<^verbatim>\<open>undefined\<close> when there is none. On a boolean, a number, a string or an
  array it is \<^verbatim>\<open>undefined\<close> for every name the component reads (message, data, token,
  user, id, name, email, specialization), none of which the built-in prototypes define.
\<close>

definition Get :: "'n engine \<Rightarrow> 'n jsval \<Rightarrow> string \<Rightarrow> exn + 'n jsval" where
  "Get h v p =
     (case v of
        JUndefined \<Rightarrow> Inl (TypeError (TypeError_message h v p))
      | JNull \<Rightarrow> Inl (TypeError (TypeError_message h v p))
      | JObject kvs \<Rightarrow>
          Inr (case map_of (rev kvs) p of None \<Rightarrow> JUndefined | Some x \<Rightarrow> x)
      | _ \<Rightarrow> Inr JUndefined)"

text \<open>
  The argument of \<^verbatim>\<open>fetch\<close> (lines 71 to 83) and what comes back. \<open>httpMethod\<close> is
  the option \<^verbatim>\<open>method\<close>; \<open>status\<close> is the HTTP status; \<open>json\<close> is the outcome of
  \<^verbatim>\<open>await response.json()\<close>, which rejects when the body is not JSON.
\<close>

record Request =
  url :: string
  httpMethod :: string
  headers :: "(string \<times> string) list"
  body :: string

record 'n Response =
  status :: nat
  json :: "exn + 'n jsval"

definition ok :: "'n Response \<Rightarrow> bool" where
  "ok r = (200 \<le> status r \<and> status r \<le> 299)"

text \<open>
  The state. The first four fields are the \<^verbatim>\<open>useState\<close> cells of lines 24 to 31
  (\<open>selectedServiceDetails\<close> holds the pair of duration and price). \<open>formValues\<close> and
  \<open>formErrors\<close> are the values and the field errors held by the form library.
  \<open>localStorage\<close> is the list of the \<^verbatim>\<open>setItem\<close> calls that the storage accepted,
  latest first; \<open>navigation\<close> the list of \<^verbatim>\<open>navigate\<close> calls; \<open>sent\<close> the list of
  \<^verbatim>\<open>fetch\<close> calls; \<open>settled\<close> counts the fetches whose promise has settled;
  \<open>servicesPending\<close> says that the \<^verbatim>\<open>getServices()\<close> call of the mount effect has not
  settled yet. \<open>isLoading\<close> is the value of the state cell, as the setters leave it;
  \<open>buttonDisabled\<close> is the \<^verbatim>\<open>disabled\<close> attribute of the submit button (line 306) as
  the last render wrote it. \<open>validating\<close> counts the submit events that
  \<^verbatim>\<open>handleSubmit\<close> has received and not yet validated.
\<close>

record 'n state =
  isLoading :: bool
  error :: "string option"
  services :: "'n Service list"
  selectedServiceDetails :: "('n \<times> 'n) option"
  formValues :: RegisterFormInputs
  formErrors :: "(string \<times> string) list"
  localStorage :: "(string \<times> string) list"
  navigation :: "string list"
  sent :: "Request list"
  settled :: nat
  servicesPending :: bool
  buttonDisabled :: bool
  validating :: nat

text \<open>
  \<^verbatim>\<open>localStorage.setItem(k, v)\<close> has two places where it can throw: reading
  \<^verbatim>\<open>localStorage\<close>, which comes before the arguments are evaluated, and the write.
\<close>

definition accessStorage :: "'n engine \<Rightarrow> exn + unit" where
  "accessStorage h = (case Storage_blocked h of Some e \<Rightarrow> Inl e | None \<Rightarrow> Inr ())"

definition setItem ::
  "'n engine \<Rightarrow> string \<Rightarrow> string \<Rightarrow> (string \<times> string) list \<Rightarrow> exn + (string \<times> string) list" where
  "setItem h k v store =
     (case Storage_refuses h store k v of Some e \<Rightarrow> Inl e | None \<Rightarrow> Inr ((k, v) # store))"

definition getItem :: "string \<Rightarrow> (string \<times> string) list \<Rightarrow> string option" where
  "getItem k store = map_of store k"

subsection \<open>handleServiceChange (lines 49 to 58)\<close>

text \<open>
  \<^verbatim>\<open>services.find(service => service.name === e.target.value)\<close> is the first service of
  that name, which \<^const>\<open>List.find\<close> computes. The argument \<open>v\<close> is \<^verbatim>\<open>e.target.value\<close>.
\<close>

definition handleServiceChange :: "string \<Rightarrow> 'n state \<Rightarrow> 'n state" where
  "handleServiceChange v st =
     (case List.find (\<lambda>service. name service = v) (services st) of
        Some selectedService \<Rightarrow>
          st\<lparr>formValues := (formValues st)\<lparr>specialization := name selectedService\<rparr>,
             selectedServiceDetails := Some (duration selectedService, price selectedService)\<rparr>
      | None \<Rightarrow> st)"

subsection \<open>Computations that may throw\<close>

text \<open>
  A computation returns either the exception it threw or its result, together with the
  state it left: what was written before a \<^verbatim>\<open>throw\<close> stays written.
\<close>

type_synonym ('n, 'a) comp = "'n state \<Rightarrow> (exn + 'a) \<times> 'n state"

definition andThen :: "('n, 'a) comp \<Rightarrow> ('a \<Rightarrow> ('n, 'b) comp) \<Rightarrow> ('n, 'b) comp" where
  "andThen m f st = (case m st of (Inl e, st') \<Rightarrow> (Inl e, st') | (Inr a, st') \<Rightarrow> f a st')"

definition throw :: "exn \<Rightarrow> ('n, 'a) comp" where
  "throw e st = (Inl e, st)"

definition eval :: "exn + 'a \<Rightarrow> ('n, 'a) comp" where
  "eval r st = (r, st)"

definition update :: "('n state \<Rightarrow> 'n state) \<Rightarrow> ('n, unit) comp" where
  "update f st = (Inr (), f st)"

text \<open>A write to the storage of the state: it throws, or the storage has the new entry.\<close>

definition storeItem :: "'n engine \<Rightarrow> string \<Rightarrow> string \<Rightarrow> ('n, unit) comp" where
  "storeItem h k v st =
     (case setItem h k v (localStorage st) of
        Inl e \<Rightarrow> (Inl e, st)
      | Inr store \<Rightarrow> (Inr (), st\<lparr>localStorage := store\<rparr>))"

subsection \<open>onSubmit (lines 60 to 108)\<close>

text \<open>The call of \<^verbatim>\<open>fetch\<close> of lines 71 to 83, for the submitted \<^verbatim>\<open>data\<close>.\<close>

definition registerBody :: "RegisterFormInputs \<Rightarrow> 'n jsval" where
  "registerBody data =
     JObject [(''name'', JString (fullName data)),
              (''email'', JString (email data)),
              (''password'', JString (password data)),
              (''specialization'', JString (specialization data)),
              (''phoneNumber'', JString (phoneNumber data)),
              (''address'', JString (address data)),
              (''role'', JString ''doctor'')]"

definition registerRequest :: "'n engine \<Rightarrow> RegisterFormInputs \<Rightarrow> Request" where
  "registerRequest h data =
     \<lparr>url = ''http://localhost:5000/api/auth/doctor/register'',
      httpMethod = ''POST'',
      headers = [(''Content-Type'', ''application/json'')],
      body = JSON_stringify h (registerBody data)\<rparr>"

text \<open>
  Lines 62 to 83, up to the point where \<^verbatim>\<open>await fetch(...)\<close> suspends the function:
  the two state updates, the lookup of the specialization, and either the throw of line 68
  or the request, which is sent.
\<close>

definition onSubmit_start :: "'n engine \<Rightarrow> RegisterFormInputs \<Rightarrow> ('n, Request) comp" where
  "onSubmit_start h data =
     andThen (update (\<lambda>st. st\<lparr>isLoading := True\<rparr>)) (\<lambda>_.
     andThen (update (\<lambda>st. st\<lparr>error := None\<rparr>)) (\<lambda>_. (\<lambda>st.
       (case List.find (\<lambda>service. name service = specialization data) (services st) of
          None \<Rightarrow> throw (Error ''Please select a valid specialization'') st
        | Some selectedService \<Rightarrow>
            (Inr (registerRequest h data),
             st\<lparr>sent := sent st @ [registerRequest h data]\<rparr>)))))"

text \<open>The promise of \<^verbatim>\<open>fetch\<close> settles: it rejects with an exception or gives a response.\<close>

definition settle :: "exn + 'n Response \<Rightarrow> ('n, 'n Response) comp" where
  "settle outcome st = (outcome, st\<lparr>settled := Suc (settled st)\<rparr>)"

text \<open>
  An expression made of parts that may throw: the first exception ends the evaluation.
\<close>

definition thenEval :: "exn + 'a \<Rightarrow> ('a \<Rightarrow> exn + 'b) \<Rightarrow> exn + 'b" where
  "thenEval r f = (case r of Inl e \<Rightarrow> Inl e | Inr a \<Rightarrow> f a)"

text \<open>
  The object literal of lines 93 to 99, built from \<^verbatim>\<open>result.data.user\<close>. Its properties
  are evaluated in order, so a missing user throws at \<^verbatim>\<open>.id\<close>.
\<close>

definition userSummary :: "'n engine \<Rightarrow> 'n jsval \<Rightarrow> exn + 'n jsval" where
  "userSummary h result =
     thenEval (Get h result ''data'') (\<lambda>d.
     thenEval (Get h d ''user'') (\<lambda>user.
     thenEval (Get h user ''id'') (\<lambda>uid.
     thenEval (Get h user ''name'') (\<lambda>uname.
     thenEval (Get h user ''email'') (\<lambda>uemail.
     thenEval (Get h user ''specialization'') (\<lambda>uspec.
       Inr (JObject [(''id'', uid),
                     (''name'', uname),
                     (''email'', uemail),
                     (''role'', JString ''doctor''),
                     (''specialization'', uspec)])))))))"

text \<open>
  The argument \<^verbatim>\<open>result.data.token\<close> of line 92, converted to a string as
  \<^verbatim>\<open>setItem\<close> does with its value before it writes.
\<close>

definition tokenString :: "'n engine \<Rightarrow> 'n jsval \<Rightarrow> exn + string" where
  "tokenString h result =
     thenEval (Get h result ''data'') (\<lambda>d.
     thenEval (Get h d ''token'') (\<lambda>token. ToString h token))"

text \<open>
  The message of the error of line 88: \<^verbatim>\<open>result.message || 'Registration failed'\<close>,
  converted to a string by the \<^verbatim>\<open>Error\<close> constructor.
\<close>

definition failureMessage :: "'n engine \<Rightarrow> 'n jsval \<Rightarrow> exn + string" where
  "failureMessage h result =
     thenEval (Get h result ''message'') (\<lambda>m.
       if ToBoolean h m then ToString h m else Inr ''Registration failed'')"

text \<open>Lines 85 to 102, run once \<^verbatim>\<open>fetch\<close> has given a response.\<close>

definition onSubmit_resume :: "'n engine \<Rightarrow> 'n Response \<Rightarrow> ('n, unit) comp" where
  "onSubmit_resume h response =
     andThen (eval (json response)) (\<lambda>result.
       if \<not> ok response then
         andThen (eval (failureMessage h result)) (\<lambda>m. throw (Error m))
       else
         andThen (eval (accessStorage h)) (\<lambda>_.
         andThen (eval (tokenString h result)) (\<lambda>token.
         andThen (storeItem h ''token'' token) (\<lambda>_.
         andThen (eval (accessStorage h)) (\<lambda>_.
         andThen (eval (userSummary h result)) (\<lambda>user.
         andThen (storeItem h ''user'' (JSON_stringify h user)) (\<lambda>_.
         update (\<lambda>st. st\<lparr>navigation := navigation st @ [''/doctor/dashboard'']\<rparr>))))))))"

text \<open>
  The argument of \<^verbatim>\<open>setError\<close> in line 104:
  \<^verbatim>\<open>err.message || 'Registration failed. Please try again.'\<close>.
\<close>

definition errorText :: "exn \<Rightarrow> string" where
  "errorText err =
     (if message err \<noteq> [] then message err else ''Registration failed. Please try again.'')"

text \<open>
  The \<^verbatim>\<open>catch\<close> and \<^verbatim>\<open>finally\<close> clauses, lines 103 to 107, applied to the outcome of
  the \<^verbatim>\<open>try\<close> block.
\<close>

definition catch_finally :: "(exn + unit) \<times> 'n state \<Rightarrow> 'n state" where
  "catch_finally outcome =
     (case outcome of
        (Inl err, st) \<Rightarrow> st\<lparr>error := Some (errorText err), isLoading := False\<rparr>
      | (Inr _, st) \<Rightarrow> st\<lparr>isLoading := False\<rparr>)"

text \<open>
  The whole of \<^verbatim>\<open>onSubmit\<close>, from call to completion: the \<^verbatim>\<open>try\<close> block, then
  \<^verbatim>\<open>catch\<close> and \<^verbatim>\<open>finally\<close>. The network \<open>net\<close> gives the outcome of the request.
\<close>

definition onSubmit_try ::
  "'n engine \<Rightarrow> (Request \<Rightarrow> exn + 'n Response) \<Rightarrow> RegisterFormInputs \<Rightarrow> ('n, unit) comp" where
  "onSubmit_try h net data =
     andThen (onSubmit_start h data) (\<lambda>req.
     andThen (settle (net req)) (onSubmit_resume h))"

definition onSubmit ::
  "'n engine \<Rightarrow> (Request \<Rightarrow> exn + 'n Response) \<Rightarrow> RegisterFormInputs \<Rightarrow> 'n state \<Rightarrow> 'n state" where
  "onSubmit h net data st = catch_finally (onSubmit_try h net data st)"

text \<open>
  The same function in the two pieces in which it really runs. \<open>onSubmit_begin\<close> is what
  happens when it is called: it runs up to the \<^verbatim>\<open>await\<close>, or, when line 68 throws, through
  \<^verbatim>\<open>catch\<close> and \<^verbatim>\<open>finally\<close>. \<open>onSubmit_continue\<close> is what happens when the promise
  of \<^verbatim>\<open>fetch\<close> settles.
\<close>

definition onSubmit_begin :: "'n engine \<Rightarrow> RegisterFormInputs \<Rightarrow> 'n state \<Rightarrow> 'n state" where
  "onSubmit_begin h data st =
     (case onSubmit_start h data st of
        (Inl e, st') \<Rightarrow> catch_finally (Inl e, st')
      | (Inr req, st') \<Rightarrow> st')"

definition onSubmit_continue :: "'n engine \<Rightarrow> exn + 'n Response \<Rightarrow> 'n state \<Rightarrow> 'n state" where
  "onSubmit_continue h outcome st =
     catch_finally (andThen (settle outcome) (onSubmit_resume h) st)"

subsection \<open>Field validation and handleSubmit (line 130, rules of lines 143 to 291)\<close>

text \<open>
  Modelled from the spec: \<^verbatim>\<open>register\<close> and \<^verbatim>\<open>handleSubmit\<close> belong to the form library
  (react-hook-form), which is not among the sources. The rules and their messages are the
  ones the component passes to \<^verbatim>\<open>register\<close>; that they are "evaluated before submission
  is attempted", and that a failing rule blocks the submit handler, is the spec's account
  of the library. Each function gives the message of a violated rule.
\<close>

definition required :: "string \<Rightarrow> string \<Rightarrow> string option" where
  "required msg v = (if v = [] then Some msg else None)"

definition minLength :: "nat \<Rightarrow> string \<Rightarrow> string \<Rightarrow> string option" where
  "minLength n msg v = (if length v < n then Some msg else None)"

definition pattern :: "(string \<Rightarrow> bool) \<Rightarrow> string \<Rightarrow> string \<Rightarrow> string option" where
  "pattern p msg v = (if p v then None else Some msg)"

definition validate :: "(string \<Rightarrow> string option) \<Rightarrow> string \<Rightarrow> string option" where
  "validate f v = f v"

text \<open>The first violated rule of a field is the one reported.\<close>

fun firstError :: "string option list \<Rightarrow> string option" where
  "firstError [] = None"
| "firstError (None # rs) = firstError rs"
| "firstError (Some msg # rs) = Some msg"

text \<open>
  The pattern of line 163, \<^verbatim>\<open>/^[A-Z0-9._%+-]+@[A-Z0-9.-]+\.[A-Z]{2,}$/i\<close>: the value
  splits at an \<^verbatim>\<open>@\<close> at position \<open>i\<close> and a dot at position \<open>j\<close> into three non-empty
  runs of the three character classes, the last one of at least two letters.
\<close>

definition letter :: "char \<Rightarrow> bool" where
  "letter c = (c \<in> set ''ABCDEFGHIJKLMNOPQRSTUVWXYZabcdefghijklmnopqrstuvwxyz'')"

definition digit :: "char \<Rightarrow> bool" where
  "digit c = (c \<in> set ''0123456789'')"

definition localChar :: "char \<Rightarrow> bool" where
  "localChar c = (letter c \<or> digit c \<or> c \<in> set ''._%+-'')"

definition domainChar :: "char \<Rightarrow> bool" where
  "domainChar c = (letter c \<or> digit c \<or> c \<in> set ''.-'')"

definition emailPattern :: "string \<Rightarrow> bool" where
  "emailPattern v =
     (\<exists>i \<in> set [0..<length v]. \<exists>j \<in> set [0..<length v].
        i < j \<and> v ! i = CHR ''@'' \<and> v ! j = CHR ''.'' \<and>
        take i v \<noteq> [] \<and> list_all localChar (take i v) \<and>
        take (j - Suc i) (drop (Suc i) v) \<noteq> [] \<and>
        list_all domainChar (take (j - Suc i) (drop (Suc i) v)) \<and>
        2 \<le> length (drop (Suc j) v) \<and> list_all letter (drop (Suc j) v))"

text \<open>
  The rules of each registered field, in the order of the form. The \<^verbatim>\<open>validate\<close> rule of
  line 289 compares with \<^verbatim>\<open>watch('password')\<close>, the current value of the password field.
\<close>

definition fieldRules :: "RegisterFormInputs \<Rightarrow> (string \<times> string option) list" where
  "fieldRules data =
     [(''name'', firstError [required ''Name is required'' (fullName data)]),
      (''email'', firstError [required ''Email is required'' (email data),
                             pattern emailPattern ''Invalid email address'' (email data)]),
      (''specialization'',
         firstError [required ''Service selection is required'' (specialization data)]),
      (''phoneNumber'', firstError [required ''Phone number is required'' (phoneNumber data)]),
      (''address'', firstError [required ''Address is required'' (address data)]),
      (''password'', firstError [required ''Password is required'' (password data),
                                minLength 6 ''Password must be at least 6 characters''
                                  (password data)]),
      (''confirmPassword'',
         firstError [required ''Please confirm your password'' (confirmPassword data),
                     validate (\<lambda>value. if value = password data then None
                                        else Some ''The passwords do not match'')
                       (confirmPassword data)])]"

fun fieldErrors :: "(string \<times> string option) list \<Rightarrow> (string \<times> string) list" where
  "fieldErrors [] = []"
| "fieldErrors ((f, None) # rs) = fieldErrors rs"
| "fieldErrors ((f, Some msg) # rs) = (f, msg) # fieldErrors rs"

text \<open>
  \<^verbatim>\<open>handleSubmit(onSubmit)\<close>: the handler of the form's submit event. It calls
  \<open>callback\<close> with the values of the form when no field has an error, and only records
  the field errors otherwise.
\<close>

definition handleSubmit ::
  "(RegisterFormInputs \<Rightarrow> 'n state \<Rightarrow> 'n state) \<Rightarrow> 'n state \<Rightarrow> 'n state" where
  "handleSubmit callback st =
     (if fieldErrors (fieldRules (formValues st)) = []
      then callback (formValues st) (st\<lparr>formErrors := []\<rparr>)
      else st\<lparr>formErrors := fieldErrors (fieldRules (formValues st))\<rparr>)"

subsection \<open>The component as a state machine\<close>

text \<open>
  What can happen to the mounted component: the promise of \<^verbatim>\<open>getServices()\<close> settles
  (lines 37 to 47), the form library takes the value of a registered field from its element,
  the user picks an option of the select (line 184), a submit event is dispatched on the
  form (line 130, through the button of lines 304 to 310), \<^verbatim>\<open>handleSubmit\<close> finishes the
  validation it awaits and goes on, the component is rendered again, or the promise of
  \<^verbatim>\<open>fetch\<close> settles. The select is registered like the six text fields; the component
  replaces only its change handler, so the library may still take its value, and the
  machine allows that for any value.
\<close>

datatype field =
  Name | Email | Specialization | PhoneNumber | Address | Password | ConfirmPassword

fun setField :: "field \<Rightarrow> string \<Rightarrow> RegisterFormInputs \<Rightarrow> RegisterFormInputs" where
  "setField Name v data = data\<lparr>fullName := v\<rparr>"
| "setField Email v data = data\<lparr>email := v\<rparr>"
| "setField Specialization v data = data\<lparr>specialization := v\<rparr>"
| "setField PhoneNumber v data = data\<lparr>phoneNumber := v\<rparr>"
| "setField Address v data = data\<lparr>address := v\<rparr>"
| "setField Password v data = data\<lparr>password := v\<rparr>"
| "setField ConfirmPassword v data = data\<lparr>confirmPassword := v\<rparr>"

datatype 'n event =
    ServicesLoaded "'n Service list"
  | ServicesFailed
  | Input field string
  | Select string
  | Submit
  | Validated
  | Render
  | Settled "exn + 'n Response"

text \<open>
  Modelled from the spec: the router is not among the sources. By the spec a successful
  submission "navigates away", so the form is on screen as long as \<^verbatim>\<open>navigate\<close> has not
  been called.
\<close>

definition mounted :: "'n state \<Rightarrow> bool" where
  "mounted st = (navigation st = [])"


text \<open>
  \<open>fire h ev st\<close> is the state after the event, and \<open>None\<close> when the event cannot happen
  in \<open>st\<close>.
  \<^item> The mount effect calls \<^verbatim>\<open>getServices()\<close> once, with \<^verbatim>\<open>setServices(data)\<close> on
    success and only a log entry on failure. (The render after \<^verbatim>\<open>setServices\<close> is taken
    with it: a handler of the render before would still see the empty list.)
  \<^item> The user acts on a form that is on screen.
  \<^item> A submit event needs a submit button that is not disabled on screen. What disables
    it is the attribute written by the last render, \<^verbatim>\<open>disabled={isLoading}\<close> (line 306);
    neither \<^verbatim>\<open>handleSubmit\<close> nor \<^verbatim>\<open>onSubmit\<close> looks at \<^verbatim>\<open>isLoading\<close>. The event
    only hands the form to \<^verbatim>\<open>handleSubmit\<close>, which awaits the validation.
  \<^item> When a validation is over, \<^verbatim>\<open>handleSubmit\<close> records the field errors or calls
    \<^verbatim>\<open>onSubmit\<close>, which runs up to its \<^verbatim>\<open>await\<close>.
  \<^item> A render writes the current \<^verbatim>\<open>isLoading\<close> into the button.
  \<^item> A promise of \<^verbatim>\<open>fetch\<close> that was sent and has not settled may settle, whether the
    form is still on screen or not.
\<close>

fun fire :: "'n engine \<Rightarrow> 'n event \<Rightarrow> 'n state \<Rightarrow> 'n state option" where
  "fire h (ServicesLoaded data) st =
     (if servicesPending st then Some (st\<lparr>services := data, servicesPending := False\<rparr>)
      else None)"
| "fire h ServicesFailed st =
     (if servicesPending st then Some (st\<lparr>servicesPending := False\<rparr>) else None)"
| "fire h (Input f v) st =
     (if mounted st then Some (st\<lparr>formValues := setField f v (formValues st)\<rparr>) else None)"
| "fire h (Select v) st =
     (if mounted st then Some (handleServiceChange v st) else None)"
| "fire h Submit st =
     (if mounted st \<and> \<not> buttonDisabled st then Some (st\<lparr>validating := Suc (validating st)\<rparr>)
      else None)"
| "fire h Validated st =
     (if 0 < validating st
      then Some (handleSubmit (onSubmit_begin h) (st\<lparr>validating := validating st - 1\<rparr>))
      else None)"
| "fire h Render st =
     (if mounted st then Some (st\<lparr>buttonDisabled := isLoading st\<rparr>) else None)"
| "fire h (Settled outcome) st =
     (if settled st < length (sent st) then Some (onSubmit_continue h outcome st) else None)"

fun run :: "'n engine \<Rightarrow> 'n event list \<Rightarrow> 'n state \<Rightarrow> 'n state option" where
  "run h [] st = Some st"
| "run h (ev # evs) st = (case fire h ev st of None \<Rightarrow> None | Some st' \<Rightarrow> run h evs st')"

text \<open>
  The state in which the component mounts, over the storage \<open>store\<close> that the browser
  already holds: the initial values of lines 24 to 31, an empty form, the button rendered
  enabled, nothing sent, and the call of \<^verbatim>\<open>getServices()\<close> under way.
\<close>

definition initial :: "(string \<times> string) list \<Rightarrow> 'n state" where
  "initial store =
     \<lparr>isLoading = False, error = None, services = [], selectedServiceDetails = None,
      formValues = \<lparr>fullName = [], email = [], password = [], confirmPassword = [],
                    specialization = [], phoneNumber = [], address = []\<rparr>,
      formErrors = [], localStorage = store, navigation = [], sent = [], settled = 0,
      servicesPending = True, buttonDisabled = False, validating = 0\<rparr>"



text \<open>
  The two read-only inputs of lines 204 to 220, which show the selected details. A template
  literal converts the number to a string.
\<close>

definition durationField :: "'n engine \<Rightarrow> 'n state \<Rightarrow> exn + string" where
  "durationField h st =
     (case selectedServiceDetails st of
        None \<Rightarrow> Inr ''Select a service''
      | Some details \<Rightarrow>
          thenEval (ToString h (JNumber (fst details))) (\<lambda>s. Inr (s @ '' minutes'')))"

definition priceField :: "'n engine \<Rightarrow> 'n state \<Rightarrow> exn + string" where
  "priceField h st =
     (case selectedServiceDetails st of
        None \<Rightarrow> Inr ''Select a service''
      | Some details \<Rightarrow>
          thenEval (ToString h (JNumber (snd details))) (\<lambda>s. Inr (''$'' @ s)))"

text \<open>
  What holds in every state the component can reach: before the services arrive the list
  is empty, and the selected details are those of a listed service.
\<close>

definition invariant :: "'n state \<Rightarrow> bool" where
  "invariant st \<longleftrightarrow>
     (servicesPending st \<longrightarrow> services st = []) \<and>
     (selectedServiceDetails st = None \<or>
      (\<exists>svc \<in> set (services st). selectedServiceDetails st = Some (duration svc, price svc)))"

text \<open>
  What holds in addition in every state of an orderly run: at most one submission is under
  way, being validated or in flight; \<open>isLoading\<close> is set exactly while a request is in
  flight, with no error shown; the form is on screen while a submission is under way;
  nothing is sent before the services arrive; \<^verbatim>\<open>navigate\<close> is called at most once.
\<close>

definition serialised :: "'n state \<Rightarrow> bool" where
  "serialised st \<longleftrightarrow>
     settled st \<le> length (sent st) \<and>
     validating st + (length (sent st) - settled st) \<le> 1 \<and>
     (isLoading st \<longleftrightarrow> length (sent st) = Suc (settled st)) \<and>
     (isLoading st \<longrightarrow> error st = None) \<and>
     (0 < validating st \<or> isLoading st \<longrightarrow> navigation st = []) \<and>
     (servicesPending st \<longrightarrow> services st = [] \<and> sent st = []) \<and>
     (navigation st = [] \<or> navigation st = [''/doctor/dashboard''] \<and> \<not> servicesPending st)"

subsection \<open>An engine and inputs for the examples\<close>

text \<open>
  An engine over natural numbers, in the manner of V8: decimal numerals, arrays joined by
  commas with \<^verbatim>\<open>null\<close> and \<^verbatim>\<open>undefined\<close> left empty, \<^verbatim>\<open>[object Object]\<close> for an
  object unless it has a \<^verbatim>\<open>toString\<close> property of its own (which no parsed value can
  call), a JSON text that leaves out undefined properties, writes \<^verbatim>\<open>null\<close> for an
  undefined array element and escapes quotes, backslashes and control characters, and a
  storage that is never blocked and never full. The theorems below hold for every engine;
  this one only gives the examples something to run on.
\<close>

fun decimal :: "nat \<Rightarrow> string" where
  "decimal n =
     (if n < 10 then [''0123456789'' ! n]
      else decimal (n div 10) @ [''0123456789'' ! (n mod 10)])"

fun commas :: "string list \<Rightarrow> string" where
  "commas [] = []"
| "commas [x] = x"
| "commas (x # y # ys) = x @ '','' @ commas (y # ys)"

fun allOrThrow :: "(exn + 'a) list \<Rightarrow> exn + 'a list" where
  "allOrThrow [] = Inr []"
| "allOrThrow (r # rs) = thenEval r (\<lambda>x. thenEval (allOrThrow rs) (\<lambda>xs. Inr (x # xs)))"

fun exampleToString :: "nat jsval \<Rightarrow> exn + string" where
  "exampleToString JUndefined = Inr ''undefined''"
| "exampleToString JNull = Inr ''null''"
| "exampleToString (JBoolean b) = Inr (if b then ''true'' else ''false'')"
| "exampleToString (JNumber n) = Inr (decimal n)"
| "exampleToString (JString s) = Inr s"
| "exampleToString (JArray xs) =
     thenEval
       (allOrThrow (map (\<lambda>x. if x = JUndefined \<or> x = JNull then Inr []
                                else exampleToString x) xs))
       (\<lambda>parts. Inr (commas parts))"
| "exampleToString (JObject kvs) =
     (if ''toString'' \<in> fst ` set kvs
      then Inl (TypeError ''Cannot convert object to primitive value'')
      else Inr ''[object Object]'')"

definition escaped :: "char \<Rightarrow> string" where
  "escaped c =
     (if c = CHR 0x08 then [CHR 0x5C, CHR ''b'']
      else if c = CHR 0x09 then [CHR 0x5C, CHR ''t'']
      else if c = CHR 0x0A then [CHR 0x5C, CHR ''n'']
      else if c = CHR 0x0C then [CHR 0x5C, CHR ''f'']
      else if c = CHR 0x0D then [CHR 0x5C, CHR ''r'']
      else if c = CHR 0x22 \<or> c = CHR 0x5C then [CHR 0x5C, c]
      else if (of_char c :: nat) < 32
      then [CHR 0x5C, CHR ''u'', CHR ''0'', CHR ''0'',
            ''0123456789abcdef'' ! ((of_char c :: nat) div 16),
            ''0123456789abcdef'' ! ((of_char c :: nat) mod 16)]
      else [c])"

definition quoted :: "string \<Rightarrow> string" where
  "quoted s = [CHR 0x22] @ concat (map escaped s) @ [CHR 0x22]"

fun exampleStringify :: "nat jsval \<Rightarrow> string" where
  "exampleStringify JUndefined = ''null''"
| "exampleStringify JNull = ''null''"
| "exampleStringify (JBoolean b) = (if b then ''true'' else ''false'')"
| "exampleStringify (JNumber n) = decimal n"
| "exampleStringify (JString s) = quoted s"
| "exampleStringify (JArray xs) = ''['' @ commas (map exampleStringify xs) @ '']''"
| "exampleStringify (JObject kvs) =
     ''{'' @ commas (map (\<lambda>(k, v). quoted k @ '':'' @ exampleStringify v)
                       (filter (\<lambda>(k, v). v \<noteq> JUndefined) kvs)) @ ''}''"

definition exampleEngine :: "nat engine" where
  "exampleEngine =
     \<lparr>ToString_other = exampleToString,
      ToBoolean_number = (\<lambda>n. n \<noteq> 0),
      JSON_stringify = exampleStringify,
      TypeError_message = (\<lambda>v p. ''Cannot read properties of '' @
         (if v = JNull then ''null'' else ''undefined'') @
         '' (reading '' @ [CHR 0x27] @ p @ [CHR 0x27] @ '')''),
      Storage_blocked = None,
      Storage_refuses = (\<lambda>store k v. None)\<rparr>"

text \<open>The same engine in a browser whose storage is full.\<close>

definition fullStorageEngine :: "nat engine" where
  "fullStorageEngine =
     exampleEngine\<lparr>Storage_refuses :=
       (\<lambda>store k v. Some (DOMException ''The quota has been exceeded.''))\<rparr>"

text \<open>The service list of the spec's example, and a form filled in for it.\<close>

definition exampleServices :: "nat Service list" where
  "exampleServices =
     [\<lparr>sid = ''s1'', name = ''Cardiology'', description = ''Heart care'',
       duration = 30, price = 100\<rparr>]"

definition exampleInputs :: RegisterFormInputs where
  "exampleInputs =
     \<lparr>fullName = ''Dr. Ada'', email = ''a@b.co'', password = ''secret'',
      confirmPassword = ''secret'', specialization = ''Cardiology'',
      phoneNumber = ''5550100'', address = ''1 Main Street''\<rparr>"

definition exampleEvents :: "nat event list" where
  "exampleEvents =
     [ServicesLoaded exampleServices, Input Name ''Dr. Ada'', Input Email ''a@b.co'',
      Select ''Cardiology'', Input PhoneNumber ''5550100'', Input Address ''1 Main Street'',
      Input Password ''secret'', Input ConfirmPassword ''secret'']"

definition exampleState :: "nat state" where
  "exampleState =
     \<lparr>isLoading = False, error = None, services = exampleServices,
      selectedServiceDetails = Some (30, 100), formValues = exampleInputs,
      formErrors = [], localStorage = [], navigation = [], sent = [], settled = 0,
      servicesPending = False, buttonDisabled = False, validating = 0\<rparr>"

text \<open>
  The state after the form of \<open>exampleState\<close> has been submitted and validated, and the
  run in which two submit events are dispatched on the filled form before the next render.
\<close>

definition exampleSubmitting :: "nat state" where
  "exampleSubmitting =
     exampleState\<lparr>isLoading := True, sent := [registerRequest exampleEngine exampleInputs]\<rparr>"


text \<open>A network that answers every request with the same outcome.\<close>

definition answering :: "exn + 'n Response \<Rightarrow> Request \<Rightarrow> exn + 'n Response" where
  "answering outcome req = outcome"

definition emailExists :: "nat Response" where
  "emailExists = \<lparr>status = 409, json = Inr (JObject [(''message'', JString ''Email exists'')])\<rparr>"

definition emptyBody :: "nat Response" where
  "emptyBody = \<lparr>status = 500, json = Inl (SyntaxError ''Unexpected end of JSON input'')\<rparr>"

definition nullBody :: "nat Response" where
  "nullBody = \<lparr>status = 500, json = Inr JNull\<rparr>"

text \<open>A success response whose user carries a role of its own.\<close>

definition exampleUser :: "nat jsval" where
  "exampleUser =
     JObject [(''id'', JString ''u1''), (''name'', JString ''Dr. Ada''),
              (''email'', JString ''a@b.co''), (''role'', JString ''admin''),
              (''specialization'', JString ''Cardiology'')]"

definition exampleData :: "nat jsval" where
  "exampleData = JObject [(''token'', JString ''tok-123''), (''user'', exampleUser)]"

definition exampleResult :: "nat jsval" where
  "exampleResult = JObject [(''data'', exampleData)]"

definition registered :: "nat Response" where
  "registered = \<lparr>status = 201, json = Inr exampleResult\<rparr>"

section \<open>Properties\<close>

subsection \<open>Looking up a service by name\<close>

lemmas comp_defs = andThen_def throw_def eval_def update_def settle_def thenEval_def
  storeItem_def

lemma find_name_None:
  assumes "\<forall>svc \<in> set xs. name svc \<noteq> v"
  shows "List.find (\<lambda>service. name service = v) xs = None"
  using assms by (auto simp: find_None_iff)

lemma find_name_Some:
  assumes "\<exists>svc \<in> set xs. name svc = v"
  obtains svc where "List.find (\<lambda>service. name service = v) xs = Some svc"
    and "svc \<in> set xs" and "name svc = v"
proof -
  from assms have "List.find (\<lambda>service. name service = v) xs \<noteq> None"
    by (auto simp: find_None_iff)
  then obtain svc where found: "List.find (\<lambda>service. name service = v) xs = Some svc"
    by auto
  then have "svc \<in> set xs" and "name svc = v"
    by (auto simp: find_Some_iff)
  with found that show thesis by blast
qed

subsection \<open>handleServiceChange\<close>

lemma handleServiceChange_found:
  assumes "\<exists>svc \<in> set (services st). name svc = v"
  shows "\<exists>svc \<in> set (services st). name svc = v \<and>
           handleServiceChange v st =
             st\<lparr>formValues := (formValues st)\<lparr>specialization := v\<rparr>,
                selectedServiceDetails := Some (duration svc, price svc)\<rparr>"
proof -
  from assms obtain svc
    where "List.find (\<lambda>service. name service = v) (services st) = Some svc"
      and "svc \<in> set (services st)" and "name svc = v"
    by (rule find_name_Some)
  then show ?thesis
    by (auto simp: handleServiceChange_def)
qed

lemma handleServiceChange_not_found:
  assumes "\<forall>svc \<in> set (services st). name svc \<noteq> v"
  shows "handleServiceChange v st = st"
  using find_name_None [OF assms] by (simp add: handleServiceChange_def)



subsection \<open>onSubmit: local validation and the request\<close>

lemma onSubmit_start_invalid:
  assumes "\<forall>svc \<in> set (services st). name svc \<noteq> specialization data"
  shows "onSubmit_start h data st =
           (Inl (Error ''Please select a valid specialization''),
            st\<lparr>isLoading := True, error := None\<rparr>)"
proof -
  have "List.find (\<lambda>service. name service = specialization data) (services st) = None"
    using assms by (rule find_name_None)
  then show ?thesis
    by (simp add: onSubmit_start_def comp_defs)
qed

lemma onSubmit_start_valid:
  assumes "\<exists>svc \<in> set (services st). name svc = specialization data"
  shows "onSubmit_start h data st =
           (Inr (registerRequest h data),
            st\<lparr>isLoading := True, error := None,
               sent := sent st @ [registerRequest h data]\<rparr>)"
proof -
  from assms obtain svc where
    "List.find (\<lambda>service. name service = specialization data) (services st) = Some svc"
    by (rule find_name_Some)
  then show ?thesis
    by (simp add: onSubmit_start_def comp_defs)
qed

lemma onSubmit_invalid:
  assumes "\<forall>svc \<in> set (services st). name svc \<noteq> specialization data"
  shows "onSubmit h net data st =
           st\<lparr>error := Some ''Please select a valid specialization'', isLoading := False\<rparr>"
  using onSubmit_start_invalid [OF assms, of h]
  by (simp add: onSubmit_def onSubmit_try_def andThen_def catch_finally_def errorText_def)

lemma onSubmit_valid:
  assumes "\<exists>svc \<in> set (services st). name svc = specialization data"
  shows "onSubmit h net data st =
           onSubmit_continue h (net (registerRequest h data))
             (st\<lparr>isLoading := True, error := None,
                sent := sent st @ [registerRequest h data]\<rparr>)"
  using onSubmit_start_valid [OF assms, of h]
  by (simp add: onSubmit_def onSubmit_try_def onSubmit_continue_def andThen_def)

text \<open>
  C1: when the submitted specialization is the name of no service of the list, onSubmit
  ends with the error "Please select a valid specialization", and it sends no request: the
  state differs from the one before only in the error shown (with \<open>isLoading\<close> false), so
  the list of requests sent is the same, whatever the network would have answered.
\<close>

theorem onSubmit_rejects_unknown_specialization:
  assumes "\<forall>svc \<in> set (services st). name svc \<noteq> specialization data"
  shows "error (onSubmit h net data st) = Some ''Please select a valid specialization'' \<and>
         sent (onSubmit h net data st) = sent st \<and>
         onSubmit h net data st =
           st\<lparr>error := Some ''Please select a valid specialization'', isLoading := False\<rparr>"
  by (simp add: onSubmit_invalid [OF assms])

theorem onSubmit_rejects_unknown_specialization_witness:
  "specialization (exampleInputs\<lparr>specialization := ''Dentistry''\<rparr>) \<notin>
     set (map name (services exampleState)) \<and>
   error (onSubmit exampleEngine (answering (Inr registered))
            (exampleInputs\<lparr>specialization := ''Dentistry''\<rparr>) exampleState) =
     Some ''Please select a valid specialization'' \<and>
   sent (onSubmit exampleEngine (answering (Inr registered))
           (exampleInputs\<lparr>specialization := ''Dentistry''\<rparr>) exampleState) = []"
proof -
  have names: "specialization (exampleInputs\<lparr>specialization := ''Dentistry''\<rparr>) \<notin>
      set (map name (services exampleState))"
    by (simp add: exampleState_def exampleServices_def)
  have unknown: "\<forall>svc \<in> set (services exampleState).
      name svc \<noteq> specialization (exampleInputs\<lparr>specialization := ''Dentistry''\<rparr>)"
    by (simp add: exampleState_def exampleServices_def)
  from onSubmit_rejects_unknown_specialization [OF unknown] names show ?thesis
    by (simp add: exampleState_def)
qed

subsection \<open>onSubmit: after the response\<close>

lemma catch_finally_fields:
  "sent (catch_finally (r, st)) = sent st"
  "localStorage (catch_finally (r, st)) = localStorage st"
  "navigation (catch_finally (r, st)) = navigation st"
  "isLoading (catch_finally (r, st)) = False"
  by (cases r; simp add: catch_finally_def)+

lemma onSubmit_continue_rejected:
  "onSubmit_continue h (Inl e) st =
     st\<lparr>settled := Suc (settled st), error := Some (errorText e), isLoading := False\<rparr>"
  by (simp add: onSubmit_continue_def comp_defs catch_finally_def)

lemma onSubmit_continue_response:
  "onSubmit_continue h (Inr response) st =
     catch_finally (onSubmit_resume h response (st\<lparr>settled := Suc (settled st)\<rparr>))"
  by (simp add: onSubmit_continue_def andThen_def settle_def)

lemma onSubmit_resume_unparsed:
  assumes "json response = Inl e"
  shows "onSubmit_resume h response st = (Inl e, st)"
  using assms by (simp add: onSubmit_resume_def comp_defs)

lemma onSubmit_resume_not_ok:
  assumes "\<not> ok response" and "json response = Inr result"
  shows "onSubmit_resume h response st =
           (case failureMessage h result of
              Inl e \<Rightarrow> (Inl e, st)
            | Inr m \<Rightarrow> (Inl (Error m), st))"
  using assms by (simp add: onSubmit_resume_def comp_defs split: sum.splits)

lemma onSubmit_resume_ok:
  assumes "ok response" and "json response = Inr result"
  shows "onSubmit_resume h response st =
     (case accessStorage h of
        Inl e \<Rightarrow> (Inl e, st)
      | Inr u \<Rightarrow>
         (case tokenString h result of
            Inl e \<Rightarrow> (Inl e, st)
          | Inr token \<Rightarrow>
             (case setItem h ''token'' token (localStorage st) of
                Inl e \<Rightarrow> (Inl e, st)
              | Inr store \<Rightarrow>
                 (case userSummary h result of
                    Inl e \<Rightarrow> (Inl e, st\<lparr>localStorage := store\<rparr>)
                  | Inr user \<Rightarrow>
                     (case setItem h ''user'' (JSON_stringify h user) store of
                        Inl e \<Rightarrow> (Inl e, st\<lparr>localStorage := store\<rparr>)
                      | Inr store' \<Rightarrow>
                         (Inr (),
                          st\<lparr>localStorage := store',
                             navigation := navigation st @ [''/doctor/dashboard'']\<rparr>))))))"
  using assms by (simp add: onSubmit_resume_def comp_defs split: sum.splits)

text \<open>
  Whatever the response, the continuation changes only the storage and the navigation, and
  it navigates exactly when it does not throw.
\<close>

lemma onSubmit_resume_fields:
  assumes "onSubmit_resume h response st = (r, st')"
  shows "st' = st\<lparr>localStorage := localStorage st', navigation := navigation st'\<rparr> \<and>
         (case r of
            Inl e \<Rightarrow> navigation st' = navigation st
          | Inr u \<Rightarrow> navigation st' = navigation st @ [''/doctor/dashboard''])"
  using assms
  by (auto simp: onSubmit_resume_def comp_defs split: sum.splits if_splits)

text \<open>
  A response that is not ok always ends in the \<^verbatim>\<open>catch\<close> clause, with some exception
  \<open>e\<close>, and leaves everything but the error alone.
\<close>

lemma onSubmit_continue_not_ok:
  assumes "\<not> ok response"
  shows "\<exists>e. onSubmit_continue h (Inr response) st =
           st\<lparr>settled := Suc (settled st), error := Some (errorText e), isLoading := False\<rparr>"
proof (cases "json response")
  case (Inl e)
  then show ?thesis
    by (auto simp: onSubmit_continue_response onSubmit_resume_unparsed catch_finally_def)
next
  case (Inr result)
  show ?thesis
  proof (cases "failureMessage h result")
    case (Inl e)
    with Inr assms show ?thesis
      by (auto simp: onSubmit_continue_response onSubmit_resume_not_ok catch_finally_def)
  next
    case m: (Inr m)
    with Inr assms have "onSubmit_continue h (Inr response) st =
        st\<lparr>settled := Suc (settled st), error := Some (errorText (Error m)),
           isLoading := False\<rparr>"
      by (simp add: onSubmit_continue_response onSubmit_resume_not_ok catch_finally_def)
    then show ?thesis by blast
  qed
qed

lemma error_onSubmit_continue_not_ok:
  assumes "\<not> ok response" and "json response = Inr result"
  shows "error (onSubmit_continue h (Inr response) st) =
           Some (case failureMessage h result of
                   Inl e \<Rightarrow> errorText e
                 | Inr m \<Rightarrow> errorText (Error m))"
  using assms
  by (simp add: onSubmit_continue_response onSubmit_resume_not_ok catch_finally_def
      split: sum.splits)

lemma sent_onSubmit_continue: "sent (onSubmit_continue h outcome st) = sent st"
proof (cases outcome)
  case (Inl e)
  then show ?thesis by (simp add: onSubmit_continue_rejected)
next
  case (Inr response)
  let ?st = "st\<lparr>settled := Suc (settled st)\<rparr>"
  obtain r st' where run: "onSubmit_resume h response ?st = (r, st')"
    by (cases "onSubmit_resume h response ?st")
  then have "sent st' = sent ?st"
    by (auto simp: onSubmit_resume_def comp_defs split: sum.splits if_splits)
  with Inr run show ?thesis
    by (simp add: onSubmit_continue_response catch_finally_fields)
qed

text \<open>
  C3: a submission that passes the local validation sends exactly one request, a POST to the
  registration endpoint whose body is the JSON text of the object with the properties name,
  email, password, specialization, phoneNumber and address of the form inputs and the
  property role with the value "doctor".
\<close>

theorem onSubmit_request_body:
  assumes "\<exists>svc \<in> set (services st). name svc = specialization data"
  shows "sent (onSubmit h net data st) =
           sent st @
           [\<lparr>url = ''http://localhost:5000/api/auth/doctor/register'',
             httpMethod = ''POST'',
             headers = [(''Content-Type'', ''application/json'')],
             body = JSON_stringify h
                      (JObject [(''name'', JString (fullName data)),
                                (''email'', JString (email data)),
                                (''password'', JString (password data)),
                                (''specialization'', JString (specialization data)),
                                (''phoneNumber'', JString (phoneNumber data)),
                                (''address'', JString (address data)),
                                (''role'', JString ''doctor'')])\<rparr>]"
  by (simp add: onSubmit_valid [OF assms] sent_onSubmit_continue registerRequest_def
      registerBody_def)

theorem onSubmit_request_body_witness:
  "(\<exists>svc \<in> set (services exampleState). name svc = specialization exampleInputs) \<and>
   sent (onSubmit exampleEngine (answering (Inr registered)) exampleInputs exampleState) =
     [\<lparr>url = ''http://localhost:5000/api/auth/doctor/register'',
       httpMethod = ''POST'',
       headers = [(''Content-Type'', ''application/json'')],
       body = exampleStringify
                (JObject [(''name'', JString ''Dr. Ada''),
                          (''email'', JString ''a@b.co''),
                          (''password'', JString ''secret''),
                          (''specialization'', JString ''Cardiology''),
                          (''phoneNumber'', JString ''5550100''),
                          (''address'', JString ''1 Main Street''),
                          (''role'', JString ''doctor'')])\<rparr>]"
proof -
  have known: "\<exists>svc \<in> set (services exampleState). name svc = specialization exampleInputs"
    by (simp add: exampleState_def exampleServices_def exampleInputs_def)
  from onSubmit_request_body [OF known, of exampleEngine] known show ?thesis
    by (simp add: exampleState_def exampleInputs_def exampleEngine_def)
qed

text \<open>
  C2, as stated, fails: the write of line 92 is inside the \<^verbatim>\<open>try\<close> block and the
  storage may refuse it. In a browser whose storage is full, a successful response with the
  token \<^verbatim>\<open>tok-123\<close> leaves no entry \<^verbatim>\<open>token\<close>; the exception of \<^verbatim>\<open>setItem\<close> is
  shown as the error and \<^verbatim>\<open>navigate\<close> is not reached.
\<close>

theorem onSubmit_full_storage_counterexample:
  "ok registered \<and>
   json registered = Inr exampleResult \<and>
   Get fullStorageEngine exampleResult ''data'' = Inr exampleData \<and>
   Get fullStorageEngine exampleData ''token'' = Inr (JString ''tok-123'') \<and>
   getItem ''token''
     (localStorage (onSubmit fullStorageEngine (answering (Inr registered)) exampleInputs
        exampleState)) = None \<and>
   error (onSubmit fullStorageEngine (answering (Inr registered)) exampleInputs exampleState) =
     Some ''The quota has been exceeded.'' \<and>
   navigation (onSubmit fullStorageEngine (answering (Inr registered)) exampleInputs
     exampleState) = []"
proof -
  have known: "\<exists>svc \<in> set (services exampleState). name svc = specialization exampleInputs"
    by (simp add: exampleState_def exampleServices_def exampleInputs_def)
  have ok: "ok registered" and body: "json registered = Inr exampleResult"
    by (simp_all add: ok_def registered_def)
  have data: "Get fullStorageEngine exampleResult ''data'' = Inr exampleData"
    and token: "Get fullStorageEngine exampleData ''token'' = Inr (JString ''tok-123'')"
    by (simp_all add: Get_def exampleResult_def exampleData_def)
  have tok: "tokenString fullStorageEngine exampleResult = Inr ''tok-123''"
    using data token by (simp add: tokenString_def thenEval_def ToString_def)
  have full: "setItem fullStorageEngine ''token'' ''tok-123'' [] =
      Inl (DOMException ''The quota has been exceeded.'')"
    and access: "accessStorage fullStorageEngine = Inr ()"
    by (simp_all add: setItem_def accessStorage_def fullStorageEngine_def exampleEngine_def)
  have empty: "localStorage exampleState = []" "sent exampleState = []"
    "settled exampleState = 0" "isLoading exampleState = False"
    by (simp_all add: exampleState_def)
  have "onSubmit fullStorageEngine (answering (Inr registered)) exampleInputs exampleState =
      exampleState\<lparr>sent := [registerRequest fullStorageEngine exampleInputs],
                   settled := Suc 0,
                   error := Some ''The quota has been exceeded.''\<rparr>"
    by (simp add: onSubmit_valid [OF known] answering_def onSubmit_continue_response
        onSubmit_resume_ok [OF ok body] access tok full catch_finally_def errorText_def
        empty)
  then have "getItem ''token''
     (localStorage (onSubmit fullStorageEngine (answering (Inr registered)) exampleInputs
        exampleState)) = None"
    and "error (onSubmit fullStorageEngine (answering (Inr registered)) exampleInputs
        exampleState) = Some ''The quota has been exceeded.''"
    and "navigation (onSubmit fullStorageEngine (answering (Inr registered)) exampleInputs
        exampleState) = []"
    by (simp_all add: exampleState_def getItem_def)
  with ok body data token show ?thesis by blast
qed

text \<open>
  C2, amended: when the request was sent, the response is ok, its body parses to a value
  whose \<^verbatim>\<open>data.token\<close> is the string \<open>t\<close>, and the storage can be reached and accepts
  \<open>t\<close> under the key \<^verbatim>\<open>token\<close>, then after onSubmit the storage entry \<^verbatim>\<open>token\<close> is
  \<open>t\<close>, whatever happens to the write of the user after it.
\<close>

theorem onSubmit_stores_token:
  assumes valid: "\<exists>svc \<in> set (services st). name svc = specialization data"
    and resp: "net (registerRequest h data) = Inr response"
    and ok: "ok response"
    and body: "json response = Inr result"
    and data: "Get h result ''data'' = Inr d"
    and token: "Get h d ''token'' = Inr (JString t)"
    and reached: "Storage_blocked h = None"
    and accepted: "Storage_refuses h (localStorage st) ''token'' t = None"
  shows "getItem ''token'' (localStorage (onSubmit h net data st)) = Some t"
proof -
  let ?st = "st\<lparr>isLoading := True, error := None,
                sent := sent st @ [registerRequest h data], settled := Suc (settled st)\<rparr>"
  have tok: "tokenString h result = Inr t"
    using data token by (simp add: tokenString_def thenEval_def ToString_def)
  have access: "accessStorage h = Inr ()"
    using reached by (simp add: accessStorage_def)
  have "getItem ''token'' (localStorage (catch_finally (onSubmit_resume h response ?st))) = Some t"
    using accepted
    by (auto simp: onSubmit_resume_ok [OF ok body] access tok catch_finally_fields
        getItem_def setItem_def split: sum.splits option.splits)
  then show ?thesis
    using resp by (simp add: onSubmit_valid [OF valid] onSubmit_continue_response)
qed

theorem onSubmit_stores_token_witness:
  "(\<exists>svc \<in> set (services exampleState). name svc = specialization exampleInputs) \<and>
   answering (Inr registered) (registerRequest exampleEngine exampleInputs) = Inr registered \<and>
   ok registered \<and>
   json registered = Inr exampleResult \<and>
   Get exampleEngine exampleResult ''data'' = Inr exampleData \<and>
   Get exampleEngine exampleData ''token'' = Inr (JString ''tok-123'') \<and>
   Storage_blocked exampleEngine = None \<and>
   Storage_refuses exampleEngine (localStorage exampleState) ''token'' ''tok-123'' = None \<and>
   getItem ''token''
     (localStorage (onSubmit exampleEngine (answering (Inr registered)) exampleInputs
        exampleState)) = Some ''tok-123''"
proof -
  have known: "\<exists>svc \<in> set (services exampleState). name svc = specialization exampleInputs"
    by (simp add: exampleState_def exampleServices_def exampleInputs_def)
  have resp: "answering (Inr registered) (registerRequest exampleEngine exampleInputs) =
      Inr registered"
    by (simp add: answering_def)
  have ok: "ok registered"
    by (simp add: ok_def registered_def)
  have body: "json registered = Inr exampleResult"
    by (simp add: registered_def)
  have data: "Get exampleEngine exampleResult ''data'' = Inr exampleData"
    by (simp add: Get_def exampleResult_def)
  have token: "Get exampleEngine exampleData ''token'' = Inr (JString ''tok-123'')"
    by (simp add: Get_def exampleData_def)
  have reached: "Storage_blocked exampleEngine = None"
    and accepted: "Storage_refuses exampleEngine (localStorage exampleState) ''token''
      ''tok-123'' = None"
    by (simp_all add: exampleEngine_def)
  note stored = onSubmit_stores_token
    [where net = "answering (Inr registered)" and st = exampleState,
     OF known resp ok body data token reached accepted]
  with known resp ok body data token reached accepted show ?thesis by blast
qed




text \<open>
  C5, as stated, fails: a response that is not ok and whose body has no message field does
  not always show "Registration failed". When the body is not JSON (here an empty body,
  status 500), \<^verbatim>\<open>response.json()\<close> rejects before \<^verbatim>\<open>response.ok\<close> is looked at,
  and the parser's message is shown; when the body is the JSON value \<^verbatim>\<open>null\<close>, reading
  \<^verbatim>\<open>result.message\<close> throws, and the TypeError's message is shown.
\<close>

theorem onSubmit_failure_fallback_counterexample:
  "\<not> ok emptyBody \<and>
   error (onSubmit exampleEngine (answering (Inr emptyBody)) exampleInputs exampleState) =
     Some ''Unexpected end of JSON input'' \<and>
   \<not> ok nullBody \<and>
   error (onSubmit exampleEngine (answering (Inr nullBody)) exampleInputs exampleState) =
     Some ''Cannot read properties of null (reading 'message')''"
proof -
  have known: "\<exists>svc \<in> set (services exampleState). name svc = specialization exampleInputs"
    by (simp add: exampleState_def exampleServices_def exampleInputs_def)
  have "\<not> ok emptyBody" and "\<not> ok nullBody"
    by (simp_all add: ok_def emptyBody_def nullBody_def)
  moreover have empty: "json emptyBody = Inl (SyntaxError ''Unexpected end of JSON input'')"
    and null: "json nullBody = Inr JNull"
    by (simp_all add: emptyBody_def nullBody_def)
  moreover have "error (onSubmit exampleEngine (answering (Inr emptyBody)) exampleInputs
      exampleState) = Some ''Unexpected end of JSON input''"
    by (simp add: onSubmit_valid [OF known] answering_def onSubmit_continue_response
        onSubmit_resume_unparsed [OF empty] catch_finally_def errorText_def)
  moreover have "error (onSubmit exampleEngine (answering (Inr nullBody)) exampleInputs
      exampleState) = Some ''Cannot read properties of null (reading 'message')''"
    using \<open>\<not> ok nullBody\<close>
    by (simp add: onSubmit_valid [OF known] answering_def
        error_onSubmit_continue_not_ok [OF _ null]
        failureMessage_def thenEval_def Get_def exampleEngine_def errorText_def)
  ultimately show ?thesis by blast
qed

text \<open>
  C5, amended: for every response to the registration request that is not ok, onSubmit
  writes nothing to the storage and does not navigate. When the body parses and its
  \<^verbatim>\<open>message\<close> is a non-empty string, that string is shown; when the body parses and its
  \<^verbatim>\<open>message\<close> is absent or falsy, "Registration failed" is shown; when the body does
  not parse, or reading \<^verbatim>\<open>message\<close> throws, the message of that exception is shown
  (and "Registration failed. Please try again." if it is empty).
\<close>

theorem onSubmit_failure_response:
  assumes valid: "\<exists>svc \<in> set (services st). name svc = specialization data"
    and resp: "net (registerRequest h data) = Inr response"
    and nok: "\<not> ok response"
  shows "localStorage (onSubmit h net data st) = localStorage st \<and>
         navigation (onSubmit h net data st) = navigation st \<and>
         (\<forall>result m. json response = Inr result \<and>
              Get h result ''message'' = Inr (JString m) \<and> m \<noteq> [] \<longrightarrow>
            error (onSubmit h net data st) = Some m) \<and>
         (\<forall>result v. json response = Inr result \<and>
              Get h result ''message'' = Inr v \<and> \<not> ToBoolean h v \<longrightarrow>
            error (onSubmit h net data st) = Some ''Registration failed'') \<and>
         (\<forall>e. json response = Inl e \<longrightarrow>
            error (onSubmit h net data st) = Some (errorText e)) \<and>
         (\<forall>result e. json response = Inr result \<and> Get h result ''message'' = Inl e \<longrightarrow>
            error (onSubmit h net data st) = Some (errorText e))"
proof -
  let ?st = "st\<lparr>isLoading := True, error := None,
                sent := sent st @ [registerRequest h data]\<rparr>"
  have eq: "onSubmit h net data st = onSubmit_continue h (Inr response) ?st"
    using onSubmit_valid [OF valid, of h net] resp by simp
  from onSubmit_continue_not_ok [OF nok, of h ?st] obtain e where
    "onSubmit_continue h (Inr response) ?st =
       ?st\<lparr>settled := Suc (settled ?st), error := Some (errorText e), isLoading := False\<rparr>" ..
  with eq have unchanged: "localStorage (onSubmit h net data st) = localStorage st"
    "navigation (onSubmit h net data st) = navigation st"
    by simp_all
  have shown: "error (onSubmit h net data st) = Some m"
    if "json response = Inr result" "Get h result ''message'' = Inr (JString m)" "m \<noteq> []"
    for result m
    using that
    by (simp add: eq error_onSubmit_continue_not_ok [OF nok] failureMessage_def thenEval_def
        ToString_def errorText_def)
  have fallback: "error (onSubmit h net data st) = Some ''Registration failed''"
    if "json response = Inr result" "Get h result ''message'' = Inr v" "\<not> ToBoolean h v"
    for result v
    using that
    by (simp add: eq error_onSubmit_continue_not_ok [OF nok] failureMessage_def thenEval_def
        errorText_def)
  have unparsed: "error (onSubmit h net data st) = Some (errorText e)"
    if "json response = Inl e" for e
    using that
    by (simp add: eq onSubmit_continue_response onSubmit_resume_unparsed catch_finally_def)
  have thrown: "error (onSubmit h net data st) = Some (errorText e)"
    if "json response = Inr result" "Get h result ''message'' = Inl e" for result e
    using that
    by (simp add: eq error_onSubmit_continue_not_ok [OF nok] failureMessage_def thenEval_def)
  from unchanged shown fallback unparsed thrown show ?thesis by blast
qed

theorem onSubmit_failure_response_witness:
  "(\<exists>svc \<in> set (services exampleState). name svc = specialization exampleInputs) \<and>
   answering (Inr emailExists) (registerRequest exampleEngine exampleInputs) =
     Inr emailExists \<and>
   \<not> ok emailExists \<and>
   json emailExists = Inr (JObject [(''message'', JString ''Email exists'')]) \<and>
   Get exampleEngine (JObject [(''message'', JString ''Email exists'')]) ''message'' =
     Inr (JString ''Email exists'') \<and>
   error (onSubmit exampleEngine (answering (Inr emailExists)) exampleInputs exampleState) =
     Some ''Email exists'' \<and>
   localStorage (onSubmit exampleEngine (answering (Inr emailExists)) exampleInputs
     exampleState) = [] \<and>
   navigation (onSubmit exampleEngine (answering (Inr emailExists)) exampleInputs
     exampleState) = []"
proof -
  have known: "\<exists>svc \<in> set (services exampleState). name svc = specialization exampleInputs"
    by (simp add: exampleState_def exampleServices_def exampleInputs_def)
  have resp: "answering (Inr emailExists) (registerRequest exampleEngine exampleInputs) =
      Inr emailExists"
    by (simp add: answering_def)
  have nok: "\<not> ok emailExists"
    by (simp add: ok_def emailExists_def)
  have body: "json emailExists = Inr (JObject [(''message'', JString ''Email exists'')])"
    by (simp add: emailExists_def)
  have msg: "Get exampleEngine (JObject [(''message'', JString ''Email exists'')]) ''message'' =
      Inr (JString ''Email exists'')"
    by (simp add: Get_def)
  note failed = onSubmit_failure_response
    [where net = "answering (Inr emailExists)" and st = exampleState, OF known resp nok]
  with body msg
  have "error (onSubmit exampleEngine (answering (Inr emailExists)) exampleInputs
          exampleState) = Some ''Email exists''"
    by simp
  moreover from failed
  have "localStorage (onSubmit exampleEngine (answering (Inr emailExists)) exampleInputs
          exampleState) = []"
    and "navigation (onSubmit exampleEngine (answering (Inr emailExists)) exampleInputs
          exampleState) = []"
    by (simp_all add: exampleState_def)
  ultimately show ?thesis
    using known resp nok body msg by blast
qed

text \<open>
  C10: onSubmit always returns, with \<open>isLoading\<close> false. Whatever the \<^verbatim>\<open>try\<close> block
  throws is turned into the error shown, whatever it leaves is kept; this covers the failed
  local validation, the rejected \<^verbatim>\<open>fetch\<close>, the body that does not parse and the
  response that is not ok, each of which ends with a non-empty error text.
\<close>

theorem onSubmit_total:
  "isLoading (onSubmit h net data st) = False \<and>
   (\<forall>e st'. onSubmit_try h net data st = (Inl e, st') \<longrightarrow>
      onSubmit h net data st = st'\<lparr>error := Some (errorText e), isLoading := False\<rparr>) \<and>
   (\<forall>u st'. onSubmit_try h net data st = (Inr u, st') \<longrightarrow>
      onSubmit h net data st = st'\<lparr>isLoading := False\<rparr>) \<and>
   ((\<forall>svc \<in> set (services st). name svc \<noteq> specialization data) \<longrightarrow>
      error (onSubmit h net data st) = Some ''Please select a valid specialization'') \<and>
   ((\<exists>svc \<in> set (services st). name svc = specialization data) \<longrightarrow>
      (\<forall>e. net (registerRequest h data) = Inl e \<longrightarrow>
         error (onSubmit h net data st) = Some (errorText e)) \<and>
      (\<forall>response e. net (registerRequest h data) = Inr response \<and> json response = Inl e \<longrightarrow>
         error (onSubmit h net data st) = Some (errorText e)) \<and>
      (\<forall>response. net (registerRequest h data) = Inr response \<and> \<not> ok response \<longrightarrow>
         (\<exists>e. error (onSubmit h net data st) = Some (errorText e)))) \<and>
   (\<forall>e. errorText e \<noteq> [])"
proof -
  have loading: "isLoading (onSubmit h net data st) = False"
    by (cases "onSubmit_try h net data st") (simp add: onSubmit_def catch_finally_fields)
  have caught: "onSubmit h net data st = st'\<lparr>error := Some (errorText e), isLoading := False\<rparr>"
    if "onSubmit_try h net data st = (Inl e, st')" for e st'
    using that by (simp add: onSubmit_def catch_finally_def)
  have returned: "onSubmit h net data st = st'\<lparr>isLoading := False\<rparr>"
    if "onSubmit_try h net data st = (Inr u, st')" for u st'
    using that by (simp add: onSubmit_def catch_finally_def)
  have local: "error (onSubmit h net data st) = Some ''Please select a valid specialization''"
    if "\<forall>svc \<in> set (services st). name svc \<noteq> specialization data"
    by (simp add: onSubmit_invalid [OF that])
  have rejected: "error (onSubmit h net data st) = Some (errorText e)"
    if "\<exists>svc \<in> set (services st). name svc = specialization data"
      and "net (registerRequest h data) = Inl e" for e
    using that(2) by (simp add: onSubmit_valid [OF that(1)] onSubmit_continue_rejected)
  have unparsed: "error (onSubmit h net data st) = Some (errorText e)"
    if "\<exists>svc \<in> set (services st). name svc = specialization data"
      and "net (registerRequest h data) = Inr response" and "json response = Inl e"
    for response e
    using that(2,3)
    by (simp add: onSubmit_valid [OF that(1)] onSubmit_continue_response
        onSubmit_resume_unparsed catch_finally_def)
  have failed: "\<exists>e. error (onSubmit h net data st) = Some (errorText e)"
    if "\<exists>svc \<in> set (services st). name svc = specialization data"
      and "net (registerRequest h data) = Inr response" and "\<not> ok response"
    for response
  proof -
    let ?st = "st\<lparr>isLoading := True, error := None,
                  sent := sent st @ [registerRequest h data]\<rparr>"
    from onSubmit_continue_not_ok [OF that(3), of h ?st] obtain e where
      "onSubmit_continue h (Inr response) ?st =
         ?st\<lparr>settled := Suc (settled ?st), error := Some (errorText e), isLoading := False\<rparr>" ..
    with that(2) have "error (onSubmit h net data st) = Some (errorText e)"
      by (simp add: onSubmit_valid [OF that(1)])
    then show ?thesis ..
  qed
  have nonempty: "errorText e \<noteq> []" for e
    by (simp add: errorText_def)
  from loading caught returned local rejected unparsed failed nonempty show ?thesis
    by blast
qed

theorem onSubmit_total_witness:
  "specialization (exampleInputs\<lparr>specialization := ''Dentistry''\<rparr>) \<notin>
     set (map name (services exampleState)) \<and>
   error (onSubmit exampleEngine (answering (Inr registered))
            (exampleInputs\<lparr>specialization := ''Dentistry''\<rparr>) exampleState) =
     Some ''Please select a valid specialization'' \<and>
   (\<exists>svc \<in> set (services exampleState). name svc = specialization exampleInputs) \<and>
   answering (Inl (TypeError ''Failed to fetch'')) (registerRequest exampleEngine exampleInputs) =
     Inl (TypeError ''Failed to fetch'') \<and>
   error (onSubmit exampleEngine (answering (Inl (TypeError ''Failed to fetch'')))
            exampleInputs exampleState) = Some ''Failed to fetch'' \<and>
   isLoading (onSubmit exampleEngine (answering (Inl (TypeError ''Failed to fetch'')))
            exampleInputs exampleState) = False \<and>
   isLoading (onSubmit exampleEngine (answering (Inr registered)) exampleInputs
            exampleState) = False"
proof -
  have names: "specialization (exampleInputs\<lparr>specialization := ''Dentistry''\<rparr>) \<notin>
      set (map name (services exampleState))"
    by (simp add: exampleState_def exampleServices_def)
  have unknown: "\<forall>svc \<in> set (services exampleState).
      name svc \<noteq> specialization (exampleInputs\<lparr>specialization := ''Dentistry''\<rparr>)"
    by (simp add: exampleState_def exampleServices_def)
  have known: "\<exists>svc \<in> set (services exampleState). name svc = specialization exampleInputs"
    by (simp add: exampleState_def exampleServices_def exampleInputs_def)
  have rejected: "answering (Inl (TypeError ''Failed to fetch''))
      (registerRequest exampleEngine exampleInputs) = Inl (TypeError ''Failed to fetch'')"
    by (simp add: answering_def)
  from onSubmit_total [of exampleEngine "answering (Inr registered)"
      "exampleInputs\<lparr>specialization := ''Dentistry''\<rparr>" exampleState] unknown
  have a: "error (onSubmit exampleEngine (answering (Inr registered))
            (exampleInputs\<lparr>specialization := ''Dentistry''\<rparr>) exampleState) =
     Some ''Please select a valid specialization''"
    by blast
  from onSubmit_total [of exampleEngine "answering (Inl (TypeError ''Failed to fetch''))"
      exampleInputs exampleState] known rejected
  have "error (onSubmit exampleEngine (answering (Inl (TypeError ''Failed to fetch'')))
            exampleInputs exampleState) = Some (errorText (TypeError ''Failed to fetch''))"
    and b: "isLoading (onSubmit exampleEngine (answering (Inl (TypeError ''Failed to fetch'')))
            exampleInputs exampleState) = False"
    by blast+
  then have c: "error (onSubmit exampleEngine (answering (Inl (TypeError ''Failed to fetch'')))
            exampleInputs exampleState) = Some ''Failed to fetch''"
    by (simp add: errorText_def)
  from onSubmit_total [of exampleEngine "answering (Inr registered)" exampleInputs exampleState]
  have d: "isLoading (onSubmit exampleEngine (answering (Inr registered)) exampleInputs
            exampleState) = False"
    by blast
  from names known rejected a b c d show ?thesis by blast
qed

subsection \<open>Field validation\<close>

lemma fieldErrors_empty_iff:
  "fieldErrors (fieldRules d) = [] \<longleftrightarrow>
     fullName d \<noteq> [] \<and> email d \<noteq> [] \<and> emailPattern (email d) \<and> specialization d \<noteq> [] \<and>
     phoneNumber d \<noteq> [] \<and> address d \<noteq> [] \<and> 6 \<le> length (password d) \<and>
     confirmPassword d = password d"
  by (auto simp: fieldRules_def required_def minLength_def pattern_def validate_def)

text \<open>
  C6: when the password has fewer than 6 characters, or the confirmation differs from it, or
  one of the seven fields is empty, some field has an error and the submit handler is not
  called: whatever the handler is, the state after the submit event is the one before with
  the field errors recorded, so nothing is sent and nothing else changes.
\<close>

theorem handleSubmit_blocks_invalid_form:
  assumes "length (password (formValues st)) < 6 \<or>
           confirmPassword (formValues st) \<noteq> password (formValues st) \<or>
           fullName (formValues st) = [] \<or> email (formValues st) = [] \<or>
           specialization (formValues st) = [] \<or> phoneNumber (formValues st) = [] \<or>
           address (formValues st) = [] \<or> password (formValues st) = [] \<or>
           confirmPassword (formValues st) = []"
  shows "fieldErrors (fieldRules (formValues st)) \<noteq> [] \<and>
         handleSubmit callback st =
           st\<lparr>formErrors := fieldErrors (fieldRules (formValues st))\<rparr> \<and>
         sent (handleSubmit (onSubmit h net) st) = sent st"
proof -
  from assms have "fieldErrors (fieldRules (formValues st)) \<noteq> []"
    unfolding fieldErrors_empty_iff by auto
  then show ?thesis by (simp add: handleSubmit_def)
qed

theorem handleSubmit_blocks_invalid_form_witness:
  "confirmPassword (formValues (exampleState\<lparr>formValues := exampleInputs\<lparr>confirmPassword := ''secrets''\<rparr>\<rparr>)) \<noteq>
     password (formValues (exampleState\<lparr>formValues := exampleInputs\<lparr>confirmPassword := ''secrets''\<rparr>\<rparr>)) \<and>
   handleSubmit (onSubmit exampleEngine (answering (Inr registered)))
     (exampleState\<lparr>formValues := exampleInputs\<lparr>confirmPassword := ''secrets''\<rparr>\<rparr>) =
     exampleState\<lparr>formValues := exampleInputs\<lparr>confirmPassword := ''secrets''\<rparr>,
                  formErrors := [(''confirmPassword'', ''The passwords do not match'')]\<rparr>"
proof -
  let ?st = "exampleState\<lparr>formValues := exampleInputs\<lparr>confirmPassword := ''secrets''\<rparr>\<rparr>"
  have differs: "confirmPassword (formValues ?st) \<noteq> password (formValues ?st)"
    by (simp add: exampleInputs_def)
  have pat: "emailPattern ''a@b.co''"
    by (simp add: emailPattern_def letter_def digit_def localChar_def domainChar_def)
  have errs: "fieldErrors (fieldRules (formValues ?st)) =
      [(''confirmPassword'', ''The passwords do not match'')]"
    using pat
    by (simp add: exampleInputs_def fieldRules_def required_def minLength_def pattern_def
        validate_def)
  from handleSubmit_blocks_invalid_form
    [of ?st "onSubmit exampleEngine (answering (Inr registered))"] differs
  have "handleSubmit (onSubmit exampleEngine (answering (Inr registered))) ?st =
      ?st\<lparr>formErrors := fieldErrors (fieldRules (formValues ?st))\<rparr>"
    by blast
  with errs differs show ?thesis by simp
qed

subsection \<open>The state machine\<close>

lemma onSubmit_begin_cases:
  "onSubmit_begin h data st =
     (if \<exists>svc \<in> set (services st). name svc = specialization data
      then st\<lparr>isLoading := True, error := None,
              sent := sent st @ [registerRequest h data]\<rparr>
      else st\<lparr>error := Some ''Please select a valid specialization'', isLoading := False\<rparr>)"
proof (cases "\<exists>svc \<in> set (services st). name svc = specialization data")
  case True
  then show ?thesis
    by (simp add: onSubmit_begin_def onSubmit_start_valid [OF True])
next
  case False
  then have "\<forall>svc \<in> set (services st). name svc \<noteq> specialization data" by simp
  from onSubmit_start_invalid [OF this, of h] False show ?thesis
    by (simp add: onSubmit_begin_def catch_finally_def errorText_def)
qed

text \<open>
  When the promise of \<^verbatim>\<open>fetch\<close> settles, the function ends in one of two ways: with an
  error shown and no navigation, or with the navigation to the dashboard and the error
  untouched. The storage may have been written in both.
\<close>

lemma onSubmit_continue_cases:
  "(\<exists>store e. onSubmit_continue h outcome st =
        st\<lparr>settled := Suc (settled st), localStorage := store,
           error := Some (errorText e), isLoading := False\<rparr>) \<or>
   (\<exists>store. onSubmit_continue h outcome st =
        st\<lparr>settled := Suc (settled st), localStorage := store,
           navigation := navigation st @ [''/doctor/dashboard''], isLoading := False\<rparr>)"
proof (cases outcome)
  case (Inl e)
  then have "onSubmit_continue h outcome st =
      st\<lparr>settled := Suc (settled st), localStorage := localStorage st,
         error := Some (errorText e), isLoading := False\<rparr>"
    by (simp add: onSubmit_continue_rejected)
  then show ?thesis by blast
next
  case (Inr response)
  let ?st = "st\<lparr>settled := Suc (settled st)\<rparr>"
  obtain r st' where resumed: "onSubmit_resume h response ?st = (r, st')"
    by (cases "onSubmit_resume h response ?st")
  note fields = onSubmit_resume_fields [OF resumed]
  from fields have st': "st' = ?st\<lparr>localStorage := localStorage st', navigation := navigation st'\<rparr>"
    by blast
  show ?thesis
  proof (cases r)
    case thrown: (Inl e)
    with fields have "navigation st' = navigation st" by simp
    with st' have "st' = ?st\<lparr>localStorage := localStorage st', navigation := navigation st\<rparr>"
      by simp
    then have "st' = ?st\<lparr>localStorage := localStorage st'\<rparr>"
      by simp
    then have "catch_finally (r, st') =
        st\<lparr>settled := Suc (settled st), localStorage := localStorage st',
           error := Some (errorText e), isLoading := False\<rparr>"
      using thrown by (simp add: catch_finally_def)
    with Inr resumed show ?thesis
      by (auto simp: onSubmit_continue_response)
  next
    case returned: (Inr u)
    with fields have "navigation st' = navigation st @ [''/doctor/dashboard'']" by simp
    with st' have "st' = ?st\<lparr>localStorage := localStorage st',
        navigation := navigation st @ [''/doctor/dashboard'']\<rparr>"
      by simp
    then have "catch_finally (r, st') =
        st\<lparr>settled := Suc (settled st), localStorage := localStorage st',
           navigation := navigation st @ [''/doctor/dashboard''], isLoading := False\<rparr>"
      using returned by (simp add: catch_finally_def)
    with Inr resumed show ?thesis
      by (auto simp: onSubmit_continue_response)
  qed
qed

lemma handleServiceChange_cases:
  "handleServiceChange v st = st \<or>
   (\<exists>svc \<in> set (services st). handleServiceChange v st =
      st\<lparr>formValues := (formValues st)\<lparr>specialization := v\<rparr>,
         selectedServiceDetails := Some (duration svc, price svc)\<rparr>)"
  using handleServiceChange_found [of st v] handleServiceChange_not_found [of st v]
  by blast

text \<open>
  What \<^verbatim>\<open>handleSubmit(onSubmit)\<close> does once the validation is over: it records field
  errors, or onSubmit fails on the specialization, or the request is sent.
\<close>

lemma handleSubmit_begin_cases:
  "handleSubmit (onSubmit_begin h) st =
     (if fieldErrors (fieldRules (formValues st)) \<noteq> []
      then st\<lparr>formErrors := fieldErrors (fieldRules (formValues st))\<rparr>
      else if \<exists>svc \<in> set (services st). name svc = specialization (formValues st)
      then st\<lparr>formErrors := [], isLoading := True, error := None,
              sent := sent st @ [registerRequest h (formValues st)]\<rparr>
      else st\<lparr>formErrors := [],
              error := Some ''Please select a valid specialization'', isLoading := False\<rparr>)"
  by (simp add: handleSubmit_def onSubmit_begin_cases)

subsubsection \<open>The selected details\<close>

lemma invariant_initial: "invariant (initial store)"
  by (simp add: invariant_def initial_def)

lemma invariant_Select:
  assumes "invariant st"
  shows "invariant (handleServiceChange v st)"
proof -
  from handleServiceChange_cases [of v st]
  consider "handleServiceChange v st = st"
    | svc where "svc \<in> set (services st)"
        "handleServiceChange v st =
           st\<lparr>formValues := (formValues st)\<lparr>specialization := v\<rparr>,
              selectedServiceDetails := Some (duration svc, price svc)\<rparr>"
    by blast
  then show ?thesis
  proof cases
    case 1
    with assms show ?thesis by simp
  next
    case 2
    from assms 2(1) show ?thesis
      unfolding 2(2) invariant_def by auto
  qed
qed

lemma invariant_Settled:
  assumes "invariant st"
  shows "invariant (onSubmit_continue h outcome st)"
proof -
  from onSubmit_continue_cases [of h outcome st]
  consider store e where "onSubmit_continue h outcome st =
        st\<lparr>settled := Suc (settled st), localStorage := store,
           error := Some (errorText e), isLoading := False\<rparr>"
    | store where "onSubmit_continue h outcome st =
        st\<lparr>settled := Suc (settled st), localStorage := store,
           navigation := navigation st @ [''/doctor/dashboard''], isLoading := False\<rparr>"
    by blast
  then show ?thesis
  proof cases
    case 1
    from assms show ?thesis
      unfolding 1 invariant_def by simp
  next
    case 2
    from assms show ?thesis
      unfolding 2 invariant_def by simp
  qed
qed

lemma invariant_fire:
  assumes "invariant st" and "fire h ev st = Some st'"
  shows "invariant st'"
proof (cases ev)
  case (ServicesLoaded data)
  with assms(2) have "servicesPending st"
    and "st' = st\<lparr>services := data, servicesPending := False\<rparr>"
    by (simp_all split: if_splits)
  with assms(1) show ?thesis
    unfolding invariant_def by auto
next
  case ServicesFailed
  with assms(2) have "servicesPending st" and "st' = st\<lparr>servicesPending := False\<rparr>"
    by (simp_all split: if_splits)
  with assms(1) show ?thesis
    unfolding invariant_def by auto
next
  case (Input f v)
  with assms(2) have "st' = st\<lparr>formValues := setField f v (formValues st)\<rparr>"
    by (simp split: if_splits)
  with assms(1) show ?thesis
    unfolding invariant_def by auto
next
  case (Select v)
  with assms(2) have "st' = handleServiceChange v st"
    by (simp split: if_splits)
  with assms(1) show ?thesis
    by (simp add: invariant_Select)
next
  case Submit
  with assms(2) have "st' = st\<lparr>validating := Suc (validating st)\<rparr>"
    by (simp split: if_splits)
  with assms(1) show ?thesis
    unfolding invariant_def by auto
next
  case Validated
  with assms(2) have "st' = handleSubmit (onSubmit_begin h) (st\<lparr>validating := validating st - 1\<rparr>)"
    by (simp split: if_splits)
  with assms(1) show ?thesis
    unfolding invariant_def by (simp add: handleSubmit_begin_cases)
next
  case Render
  with assms(2) have "st' = st\<lparr>buttonDisabled := isLoading st\<rparr>"
    by (simp split: if_splits)
  with assms(1) show ?thesis
    unfolding invariant_def by auto
next
  case (Settled outcome)
  with assms(2) have "st' = onSubmit_continue h outcome st"
    by (simp split: if_splits)
  with assms(1) show ?thesis
    by (simp add: invariant_Settled)
qed

lemma invariant_run:
  assumes "invariant st" and "run h evs st = Some st'"
  shows "invariant st'"
  using assms
proof (induction evs arbitrary: st)
  case Nil
  then show ?case by simp
next
  case (Cons ev evs)
  then show ?case
    by (auto split: option.splits dest: invariant_fire)
qed

lemma invariant_reachable:
  assumes "run h evs (initial store) = Some st"
  shows "invariant st"
  using invariant_initial assms by (rule invariant_run)

lemma details_fire:
  assumes "fire h ev st = Some st'" and "selectedServiceDetails st \<noteq> None"
  shows "selectedServiceDetails st' \<noteq> None"
proof (cases ev)
  case (ServicesLoaded data)
  with assms show ?thesis by (auto split: if_splits)
next
  case ServicesFailed
  with assms show ?thesis by (auto split: if_splits)
next
  case (Input f v)
  with assms show ?thesis by (auto split: if_splits)
next
  case (Select v)
  with assms(1) have "st' = handleServiceChange v st"
    by (simp split: if_splits)
  with handleServiceChange_cases [of v st] assms(2) show ?thesis
    by auto
next
  case Submit
  with assms show ?thesis by (auto split: if_splits)
next
  case Validated
  with assms(1) have "st' = handleSubmit (onSubmit_begin h) (st\<lparr>validating := validating st - 1\<rparr>)"
    by (simp split: if_splits)
  with assms(2) show ?thesis
    by (simp add: handleSubmit_begin_cases)
next
  case Render
  with assms show ?thesis by (auto split: if_splits)
next
  case (Settled outcome)
  with assms(1) have "st' = onSubmit_continue h outcome st"
    by (simp split: if_splits)
  with onSubmit_continue_cases [of h outcome st] assms(2) show ?thesis
    by auto
qed

subsubsection \<open>Orderly runs\<close>

lemma run_append:
  "run h (evs @ evs') st = (case run h evs st of None \<Rightarrow> None | Some st' \<Rightarrow> run h evs' st')"
  by (induction evs arbitrary: st) (simp_all split: option.splits)




lemma serialisedD:
  assumes "serialised st"
  shows "settled st \<le> length (sent st)"
    and "validating st + (length (sent st) - settled st) \<le> 1"
    and "isLoading st \<longleftrightarrow> length (sent st) = Suc (settled st)"
    and "isLoading st \<longrightarrow> error st = None"
    and "0 < validating st \<or> isLoading st \<longrightarrow> navigation st = []"
    and "servicesPending st \<longrightarrow> services st = [] \<and> sent st = []"
    and "navigation st = [] \<or> navigation st = [''/doctor/dashboard''] \<and> \<not> servicesPending st"
  using assms unfolding serialised_def by blast+



text \<open>Nothing is under way: no validation, no request, and the form is on screen.\<close>

lemma serialised_idle:
  assumes "serialised st" and "validating st + (length (sent st) - settled st) = 0"
    and "\<not> isLoading st"
  shows "length (sent st) = settled st"
  using serialisedD(1) [OF assms(1)] assms(2) by simp











subsubsection \<open>The example run\<close>

lemma example_emailPattern: "emailPattern ''a@b.co''"
  by (simp add: emailPattern_def letter_def digit_def localChar_def domainChar_def)

lemma example_fieldErrors: "fieldErrors (fieldRules exampleInputs) = []"
  using example_emailPattern
  by (simp add: fieldErrors_empty_iff exampleInputs_def)

lemma example_run: "run exampleEngine exampleEvents (initial []) = Some exampleState"
  by (simp add: exampleEvents_def initial_def exampleState_def exampleInputs_def
      exampleServices_def mounted_def handleServiceChange_def)


text \<open>
  Once validated, a submit event on a state that holds the example's form and services
  sends the request, whatever else the state holds.
\<close>

lemma example_start:
  assumes "formValues st = exampleInputs" and "services st = exampleServices"
  shows "handleSubmit (onSubmit_begin h) st =
           st\<lparr>formErrors := [], isLoading := True, error := None,
              sent := sent st @ [registerRequest h exampleInputs]\<rparr>"
proof -
  have "\<exists>svc \<in> set (services st). name svc = specialization (formValues st)"
    by (simp add: assms exampleServices_def exampleInputs_def)
  then show ?thesis
    by (simp add: handleSubmit_begin_cases assms(1) example_fieldErrors)
qed

lemma example_Submit:
  "fire exampleEngine Submit exampleState = Some (exampleState\<lparr>validating := 1\<rparr>)"
  by (simp add: exampleState_def mounted_def)

lemma example_Validated:
  "fire exampleEngine Validated (exampleState\<lparr>validating := 1\<rparr>) = Some exampleSubmitting"
proof -
  have "handleSubmit (onSubmit_begin exampleEngine) (exampleState\<lparr>validating := 0\<rparr>) =
      exampleSubmitting"
    by (simp add: example_start exampleState_def exampleSubmitting_def)
  then show ?thesis by simp
qed

lemma example_run_submitted:
  "run exampleEngine (exampleEvents @ [Submit]) (initial []) =
     Some (exampleState\<lparr>validating := 1\<rparr>)"
  by (simp only: run_append example_run option.case run.simps example_Submit)







text \<open>
  C8: the selected details are \<^verbatim>\<open>null\<close> when the component mounts; in every state it can
  reach they are \<^verbatim>\<open>null\<close>, shown as "Select a service" in both read-only inputs, or the
  duration and price of a service of the list; and no event, a selection or a submission
  among them, takes them from a value back to \<^verbatim>\<open>null\<close>.
\<close>

theorem selectedServiceDetails_invariant:
  fixes h :: "'n engine"
  assumes "run h evs (initial store) = Some st"
  shows "selectedServiceDetails (initial store :: 'n state) = None \<and>
         (selectedServiceDetails st = None \<or>
          (\<exists>svc \<in> set (services st).
             selectedServiceDetails st = Some (duration svc, price svc))) \<and>
         (selectedServiceDetails st = None \<longrightarrow>
            durationField h st = Inr ''Select a service'' \<and>
            priceField h st = Inr ''Select a service'') \<and>
         (\<forall>ev st'. fire h ev st = Some st' \<and> selectedServiceDetails st \<noteq> None \<longrightarrow>
            selectedServiceDetails st' \<noteq> None)"
proof -
  from assms have "invariant st"
    by (rule invariant_reachable)
  then have "selectedServiceDetails st = None \<or>
      (\<exists>svc \<in> set (services st). selectedServiceDetails st = Some (duration svc, price svc))"
    unfolding invariant_def by blast
  moreover have "selectedServiceDetails (initial store :: 'n state) = None"
    by (simp add: initial_def)
  moreover have "selectedServiceDetails st = None \<longrightarrow>
      durationField h st = Inr ''Select a service'' \<and> priceField h st = Inr ''Select a service''"
    by (simp add: durationField_def priceField_def)
  moreover note details_fire [of h _ st]
  ultimately show ?thesis by blast
qed

theorem selectedServiceDetails_invariant_witness:
  "run exampleEngine exampleEvents (initial []) = Some exampleState \<and>
   selectedServiceDetails exampleState = Some (30, 100) \<and>
   (\<exists>svc \<in> set (services exampleState).
      selectedServiceDetails exampleState = Some (duration svc, price svc)) \<and>
   fire exampleEngine (Select ''Dentistry'') exampleState = Some exampleState \<and>
   fire exampleEngine Validated (exampleState\<lparr>validating := 1\<rparr>) = Some exampleSubmitting \<and>
   run exampleEngine (exampleEvents @ [Submit]) (initial []) =
     Some (exampleState\<lparr>validating := 1\<rparr>) \<and>
   selectedServiceDetails exampleSubmitting \<noteq> None \<and>
   run exampleEngine [] (initial []) = Some (initial []) \<and>
   selectedServiceDetails (initial [] :: nat state) = None \<and>
   durationField exampleEngine (initial []) = Inr ''Select a service''"
proof -
  note filled = selectedServiceDetails_invariant [OF example_run]
  note submitted = example_run_submitted
  note validating = selectedServiceDetails_invariant [OF submitted]
  have start: "run exampleEngine [] (initial []) = Some (initial [])"
    by simp
  note mount = selectedServiceDetails_invariant [OF start]
  have a: "selectedServiceDetails exampleState = Some (30, 100)"
    by (simp add: exampleState_def)
  with filled have b: "\<exists>svc \<in> set (services exampleState).
      selectedServiceDetails exampleState = Some (duration svc, price svc)"
    by simp
  have c: "fire exampleEngine (Select ''Dentistry'') exampleState = Some exampleState"
    by (simp add: exampleState_def exampleServices_def mounted_def handleServiceChange_def)
  have "selectedServiceDetails (exampleState\<lparr>validating := 1\<rparr>) \<noteq> None"
    by (simp add: exampleState_def)
  with validating example_Validated have d: "selectedServiceDetails exampleSubmitting \<noteq> None"
    by blast
  from mount have e: "selectedServiceDetails (initial [] :: nat state) = None"
    "durationField exampleEngine (initial []) = Inr ''Select a service''"
    by blast+
  from example_run a b c example_Validated submitted d start e show ?thesis
    by blast
qed

end
